theory Spec2Isabelle
  imports Complex_Main "HOL-Library.Sublist"
begin

section \<open>JavaScript numbers\<close>

text \<open>
  A JavaScript \<open>number\<close> is modelled as a finite real or one of the three special values
  of IEEE 754. Arithmetic on finite values is exact: rounding and overflow of doubles are
  not modelled, and neither is the sign of zero (a zero divisor is taken as \<open>+0\<close>, which
  is the only zero the sums and quotients of \<open>getPerformanceMetrics\<close> can produce). The
  special values follow the IEEE rules, so \<open>0 / 0\<close> is \<open>NaN\<close> and \<open>1 / 0\<close> is
  \<open>+Infinity\<close>.
\<close>

datatype number = Num real | PosInf | NegInf | NaN

fun js_neg :: "number \<Rightarrow> number" where
  "js_neg (Num a) = Num (- a)"
| "js_neg PosInf = NegInf"
| "js_neg NegInf = PosInf"
| "js_neg NaN = NaN"

fun js_add :: "number \<Rightarrow> number \<Rightarrow> number" where
  "js_add (Num a) (Num b) = Num (a + b)"
| "js_add NaN _ = NaN"
| "js_add _ NaN = NaN"
| "js_add PosInf NegInf = NaN"
| "js_add NegInf PosInf = NaN"
| "js_add PosInf _ = PosInf"
| "js_add _ PosInf = PosInf"
| "js_add NegInf _ = NegInf"
| "js_add _ NegInf = NegInf"

definition js_sub :: "number \<Rightarrow> number \<Rightarrow> number" where
  "js_sub a b = js_add a (js_neg b)"

definition js_sign_inf :: "bool \<Rightarrow> number" where
  "js_sign_inf positive = (if positive then PosInf else NegInf)"

fun js_mul :: "number \<Rightarrow> number \<Rightarrow> number" where
  "js_mul (Num a) (Num b) = Num (a * b)"
| "js_mul NaN _ = NaN"
| "js_mul _ NaN = NaN"
| "js_mul (Num a) PosInf = (if a = 0 then NaN else js_sign_inf (0 < a))"
| "js_mul (Num a) NegInf = (if a = 0 then NaN else js_sign_inf (a < 0))"
| "js_mul PosInf (Num b) = (if b = 0 then NaN else js_sign_inf (0 < b))"
| "js_mul NegInf (Num b) = (if b = 0 then NaN else js_sign_inf (b < 0))"
| "js_mul PosInf PosInf = PosInf"
| "js_mul NegInf NegInf = PosInf"
| "js_mul PosInf NegInf = NegInf"
| "js_mul NegInf PosInf = NegInf"

fun js_div :: "number \<Rightarrow> number \<Rightarrow> number" where
  "js_div (Num a) (Num b) =
     (if b = 0 then (if a = 0 then NaN else js_sign_inf (0 < a)) else Num (a / b))"
| "js_div NaN _ = NaN"
| "js_div _ NaN = NaN"
| "js_div (Num a) PosInf = Num 0"
| "js_div (Num a) NegInf = Num 0"
| "js_div PosInf (Num b) = js_sign_inf (0 \<le> b)"
| "js_div NegInf (Num b) = js_sign_inf (b < 0)"
| "js_div PosInf PosInf = NaN"
| "js_div PosInf NegInf = NaN"
| "js_div NegInf PosInf = NaN"
| "js_div NegInf NegInf = NaN"

fun js_gt :: "number \<Rightarrow> number \<Rightarrow> bool" where
  "js_gt (Num a) (Num b) = (b < a)"
| "js_gt NaN _ = False"
| "js_gt _ NaN = False"
| "js_gt PosInf PosInf = False"
| "js_gt PosInf _ = True"
| "js_gt NegInf _ = False"
| "js_gt (Num a) NegInf = True"
| "js_gt (Num a) PosInf = False"

section \<open>The host's timing facility\<close>

text \<open>
  Modelled from the spec: the global \<open>performance\<close> object is provided by the host and is
  not part of the repository. The spec describes it as a log of named entries with
  \<open>recordMark\<close>, \<open>recordMeasure\<close>, \<open>queryEntriesByName\<close>, \<open>clearMarks\<close> and
  \<open>clearMeasures\<close>, and gives its failure mode for a missing mark as throwing or
  returning absent data; the model takes throwing, which is what \<open>performance.measure\<close> of
  the User Timing interface does. The log is a list in insertion order. The clock reading
  of a call is an explicit argument \<open>now\<close>. A measure takes the most recent mark of each
  name and fails when one is missing; a query returns the entries of that name, whatever
  their type, in order of start time.
\<close>

datatype error = SyntaxError | TypeError

datatype entryType = MarkEntry | MeasureEntry | ResourceEntry

record PerformanceEntry =
  name :: string
  entryType :: entryType
  startTime :: real
  duration :: real

type_synonym timeline = "PerformanceEntry list"

definition is_mark :: "string \<Rightarrow> PerformanceEntry \<Rightarrow> bool" where
  "is_mark n e = (entryType e = MarkEntry \<and> name e = n)"

definition is_measure :: "string \<Rightarrow> PerformanceEntry \<Rightarrow> bool" where
  "is_measure n e = (entryType e = MeasureEntry \<and> name e = n)"

definition performance_mark :: "string \<Rightarrow> real \<Rightarrow> timeline \<Rightarrow> timeline" where
  "performance_mark n now tln =
     tln @ [\<lparr>name = n, entryType = MarkEntry, startTime = now, duration = 0\<rparr>]"

definition find_mark :: "string \<Rightarrow> timeline \<Rightarrow> PerformanceEntry option" where
  "find_mark n tln = List.find (is_mark n) (rev tln)"

definition performance_measure :: "string \<Rightarrow> string \<Rightarrow> string \<Rightarrow> timeline \<Rightarrow> error + timeline" where
  "performance_measure n startMark endMark tln =
     (case find_mark startMark tln of
        None \<Rightarrow> Inl SyntaxError
      | Some s \<Rightarrow>
         (case find_mark endMark tln of
            None \<Rightarrow> Inl SyntaxError
          | Some e \<Rightarrow>
              Inr (tln @ [\<lparr>name = n, entryType = MeasureEntry, startTime = startTime s,
                          duration = startTime e - startTime s\<rparr>])))"

definition getEntriesByName :: "string \<Rightarrow> timeline \<Rightarrow> PerformanceEntry list" where
  "getEntriesByName n tln = sort_key startTime (filter (\<lambda>e. name e = n) tln)"

definition clearMarks :: "string \<Rightarrow> timeline \<Rightarrow> timeline" where
  "clearMarks n tln = filter (\<lambda>e. \<not> is_mark n e) tln"

definition clearMeasures :: "string \<Rightarrow> timeline \<Rightarrow> timeline" where
  "clearMeasures n tln = filter (\<lambda>e. \<not> is_measure n e) tln"

section \<open>Lifecycle and frame metrics (\<open>util/performance.ts\<close>)\<close>

record PerformanceMetrics =
  loadTime :: number
  fullLoadTime :: number
  fps :: number
  percentDroppedFrames :: number
  totalFrames :: nat

datatype PerformanceMarkers = create | load | fullLoad

fun marker_value :: "PerformanceMarkers \<Rightarrow> string" where
  "marker_value create = ''create''"
| "marker_value load = ''load''"
| "marker_value fullLoad = ''fullLoad''"

text \<open>
  The module-level variables \<open>lastFrameTime\<close> (\<open>null\<close> is \<open>None\<close>) and \<open>frameTimes\<close>,
  together with the host's log that the module reads and writes.
\<close>

record state =
  lastFrameTime :: "number option"
  frameTimes :: "number list"
  timeline :: timeline

definition minFramerateTarget :: number where
  "minFramerateTarget = Num 60"

definition frameTimeTarget :: number where
  "frameTimeTarget = js_div (Num 1000) minFramerateTarget"

definition loadTimeKey :: string where
  "loadTimeKey = ''loadTime''"

definition fullLoadTimeKey :: string where
  "fullLoadTimeKey = ''fullLoadTime''"

definition mark :: "PerformanceMarkers \<Rightarrow> real \<Rightarrow> state \<Rightarrow> state" where
  "mark marker now s = s\<lparr>timeline := performance_mark (marker_value marker) now (timeline s)\<rparr>"

definition frame :: "number \<Rightarrow> state \<Rightarrow> state" where
  "frame timestamp s =
     (let currTimestamp = timestamp;
          s1 = (case lastFrameTime s of
                  Some l \<Rightarrow> s\<lparr>frameTimes := frameTimes s @ [js_sub currTimestamp l]\<rparr>
                | None \<Rightarrow> s)
      in s1\<lparr>lastFrameTime := Some currTimestamp\<rparr>)"

definition clearMetrics :: "state \<Rightarrow> state" where
  "clearMetrics s =
     \<lparr>lastFrameTime = None, frameTimes = [],
      timeline = foldl (\<lambda>tln marker. clearMarks (marker_value marker) tln)
                   (clearMeasures fullLoadTimeKey (clearMeasures loadTimeKey (timeline s)))
                   [create, load, fullLoad]\<rparr>"

text \<open>The local constants of \<open>getPerformanceMetrics\<close>, each as a function of the sample.\<close>

definition avgFrameTime_of :: "number list \<Rightarrow> number" where
  "avgFrameTime_of fts =
     js_div (js_div (foldl (\<lambda>prev curr. js_add prev curr) (Num 0) fts)
                    (Num (real (length fts))))
            (Num 1000)"

definition fps_of :: "number list \<Rightarrow> number" where
  "fps_of fts = js_div (Num 1) (avgFrameTime_of fts)"

definition droppedFrames_of :: "number list \<Rightarrow> number" where
  "droppedFrames_of fts =
     foldl (\<lambda>acc curr. js_add acc (js_div (js_sub curr frameTimeTarget) frameTimeTarget))
       (Num 0) (filter (\<lambda>frameTime. js_gt frameTime frameTimeTarget) fts)"

definition percentDroppedFrames_of :: "number list \<Rightarrow> number" where
  "percentDroppedFrames_of fts =
     js_mul (js_div (droppedFrames_of fts)
                    (js_add (Num (real (length fts))) (droppedFrames_of fts)))
            (Num 100)"

text \<open>
  \<open>entries[0].duration\<close> on an empty array reads a property of \<open>undefined\<close>, which throws.
\<close>

definition first_duration :: "PerformanceEntry list \<Rightarrow> error + number" where
  "first_duration es = (case es of [] \<Rightarrow> Inl TypeError | e # _ \<Rightarrow> Inr (Num (duration e)))"

definition getPerformanceMetrics :: "state \<Rightarrow> error + (PerformanceMetrics \<times> state)" where
  "getPerformanceMetrics s =
     (case performance_measure loadTimeKey (marker_value create) (marker_value load)
             (timeline s) of
        Inl err \<Rightarrow> Inl err
      | Inr tl1 \<Rightarrow>
     (case performance_measure fullLoadTimeKey (marker_value create) (marker_value fullLoad)
             tl1 of
        Inl err \<Rightarrow> Inl err
      | Inr tl2 \<Rightarrow>
     (case first_duration (getEntriesByName loadTimeKey tl2) of
        Inl err \<Rightarrow> Inl err
      | Inr loadTime' \<Rightarrow>
     (case first_duration (getEntriesByName fullLoadTimeKey tl2) of
        Inl err \<Rightarrow> Inl err
      | Inr fullLoadTime' \<Rightarrow>
          Inr (\<lparr>loadTime = loadTime', fullLoadTime = fullLoadTime',
                fps = fps_of (frameTimes s),
                percentDroppedFrames = percentDroppedFrames_of (frameTimes s),
                totalFrames = length (frameTimes s)\<rparr>,
               s\<lparr>timeline := tl2\<rparr>)))))"

section \<open>Per-resource timing (\<open>RequestPerformance\<close>)\<close>

record RequestParameters =
  url :: string

record RequestPerformance =
  mark_start :: string
  mark_end :: string
  mark_measure :: string

definition RequestPerformance_new ::
  "RequestParameters \<Rightarrow> real \<Rightarrow> timeline \<Rightarrow> RequestPerformance \<times> timeline" where
  "RequestPerformance_new request now tln =
     (let this = \<lparr>mark_start = url request @ ''#'' @ ''start'',
                  mark_end = url request @ ''#'' @ ''end'',
                  mark_measure = url request\<rparr>
      in (this, performance_mark (mark_start this) now tln))"

definition finish ::
  "RequestPerformance \<Rightarrow> real \<Rightarrow> timeline \<Rightarrow> error + (PerformanceEntry list \<times> timeline)" where
  "finish this now tln =
     (let tl1 = performance_mark (mark_end this) now tln;
          resourceTimingData = getEntriesByName (mark_measure this) tl1
      in if length resourceTimingData = 0 then
           (case performance_measure (mark_measure this) (mark_start this) (mark_end this) tl1 of
              Inl err \<Rightarrow> Inl err
            | Inr tl2 \<Rightarrow>
                Inr (getEntriesByName (mark_measure this) tl2,
                     clearMeasures (mark_measure this)
                       (clearMarks (mark_end this) (clearMarks (mark_start this) tl2))))
         else Inr (resourceTimingData, tl1))"

section \<open>Bounding boxes (\<open>geo/lng_lat_bounds.ts\<close>)\<close>

record LngLat =
  lng :: real
  lat :: real

text \<open>
  The corners \<open>_sw\<close> and \<open>_ne\<close> are unset (\<open>None\<close>) in a bounding box built without
  arguments; reading a coordinate of an unset corner throws. The argument of \<open>contains\<close>
  is taken as a point that is already a \<open>LngLat\<close>, on which \<open>LngLat.convert\<close> (defined
  in \<open>lng_lat.ts\<close>) returns its argument.
\<close>

record LngLatBounds =
  bounds_sw :: "LngLat option"
  bounds_ne :: "LngLat option"

definition contains :: "LngLatBounds \<Rightarrow> LngLat \<Rightarrow> error + bool" where
  "contains this lnglat =
     (case (bounds_sw this, bounds_ne this) of
        (Some sw, Some ne) \<Rightarrow>
          (let containsLatitude = (lat sw \<le> lat lnglat \<and> lat lnglat \<le> lat ne);
               containsLongitude = (lng sw \<le> lng lnglat \<and> lng lnglat \<le> lng ne);
               containsLongitude' =
                 (if lng sw > lng ne then (lng sw \<ge> lng lnglat \<and> lng lnglat \<ge> lng ne)
                  else containsLongitude)
           in Inr (containsLatitude \<and> containsLongitude'))
      | _ \<Rightarrow> Inl TypeError)"

definition getWest :: "LngLatBounds \<Rightarrow> error + real" where
  "getWest this = (case bounds_sw this of Some sw \<Rightarrow> Inr (lng sw) | None \<Rightarrow> Inl TypeError)"

definition getEast :: "LngLatBounds \<Rightarrow> error + real" where
  "getEast this = (case bounds_ne this of Some ne \<Rightarrow> Inr (lng ne) | None \<Rightarrow> Inl TypeError)"

definition getSouth :: "LngLatBounds \<Rightarrow> error + real" where
  "getSouth this = (case bounds_sw this of Some sw \<Rightarrow> Inr (lat sw) | None \<Rightarrow> Inl TypeError)"

definition getNorth :: "LngLatBounds \<Rightarrow> error + real" where
  "getNorth this = (case bounds_ne this of Some ne \<Rightarrow> Inr (lat ne) | None \<Rightarrow> Inl TypeError)"

section \<open>Call sequences and specification-side definitions\<close>

text \<open>A run of \<open>frame\<close> calls with the given timestamps, first to last.\<close>

definition frames :: "number list \<Rightarrow> state \<Rightarrow> state" where
  "frames ts s = foldl (\<lambda>s' t. frame t s') s ts"

text \<open>A run of \<open>mark\<close> calls, each with the clock reading at the call.\<close>

definition marks :: "(PerformanceMarkers \<times> real) list \<Rightarrow> state \<Rightarrow> state" where
  "marks ms s = foldl (\<lambda>s' (marker, now). mark marker now s') s ms"

text \<open>Repeated calls of \<open>getPerformanceMetrics\<close> with nothing in between.\<close>

fun getPerformanceMetrics_times ::
  "nat \<Rightarrow> state \<Rightarrow> error + (PerformanceMetrics list \<times> state)" where
  "getPerformanceMetrics_times 0 s = Inr ([], s)"
| "getPerformanceMetrics_times (Suc n) s =
     (case getPerformanceMetrics s of
        Inl err \<Rightarrow> Inl err
      | Inr (m, s1) \<Rightarrow>
          (case getPerformanceMetrics_times n s1 of
             Inl err \<Rightarrow> Inl err
           | Inr (ms, s2) \<Rightarrow> Inr (m # ms, s2)))"

text \<open>The three lifecycle marks are in the log.\<close>

definition marks_present :: "timeline \<Rightarrow> bool" where
  "marks_present tln =
     (find_mark (marker_value create) tln \<noteq> None
      \<and> find_mark (marker_value load) tln \<noteq> None
      \<and> find_mark (marker_value fullLoad) tln \<noteq> None)"

text \<open>
  The dropped-frame weighting in the words of the specification: the sum, taken from 0 in
  sample order, of \<open>(frameTime - target) / target\<close> over the frame times that exceed
  \<open>target = 1000 / 60\<close>, and the percentage \<open>droppedWeight / (totalFrames + droppedWeight) * 100\<close>.
\<close>

definition js_sum :: "number list \<Rightarrow> number" where
  "js_sum xs = foldl js_add (Num 0) xs"

definition spec_target :: number where
  "spec_target = js_div (Num 1000) (Num 60)"

definition spec_droppedWeight :: "number list \<Rightarrow> number" where
  "spec_droppedWeight fts =
     js_sum (map (\<lambda>frameTime. js_div (js_sub frameTime spec_target) spec_target)
               (filter (\<lambda>frameTime. js_gt frameTime spec_target) fts))"

definition spec_percentDroppedFrames :: "number list \<Rightarrow> number" where
  "spec_percentDroppedFrames fts =
     js_mul (js_div (spec_droppedWeight fts)
                    (js_add (Num (real (length fts))) (spec_droppedWeight fts)))
            (Num 100)"

fun positive_number :: "number \<Rightarrow> bool" where
  "positive_number (Num d) = (0 < d)"
| "positive_number _ = False"

fun nonneg_number :: "number \<Rightarrow> bool" where
  "nonneg_number (Num d) = (0 \<le> d)"
| "nonneg_number _ = False"

text \<open>
  The recorder as the module creates it (\<open>lastFrameTime = null\<close>, \<open>frameTimes = []\<close>),
  over whatever the host's log holds at that moment.
\<close>

definition initial_state :: "timeline \<Rightarrow> state" where
  "initial_state tln = \<lparr>lastFrameTime = None, frameTimes = [], timeline = tln\<rparr>"

text \<open>Example states: an untouched recorder, and one whose three marks are recorded.\<close>

definition fresh_state :: state where
  "fresh_state = \<lparr>lastFrameTime = None, frameTimes = [], timeline = []\<rparr>"

definition loaded_state :: state where
  "loaded_state = marks [(create, 2), (load, 7), (fullLoad, 9)] fresh_state"

text \<open>A recorder with two recorded frame times, and what \<open>getPerformanceMetrics\<close> returns on it.\<close>

definition sample_state :: state where
  "sample_state = frames [Num 0, Num 10, Num 50] loaded_state"

definition sample_metrics :: PerformanceMetrics where
  "sample_metrics = \<lparr>loadTime = Num 5, fullLoadTime = Num 7, fps = Num 40,
     percentDroppedFrames = Num (700 / 17), totalFrames = 2\<rparr>"

definition sample_state_after :: state where
  "sample_state_after = sample_state\<lparr>timeline := timeline sample_state @
      [\<lparr>name = ''loadTime'', entryType = MeasureEntry, startTime = 2, duration = 5\<rparr>,
       \<lparr>name = ''fullLoadTime'', entryType = MeasureEntry, startTime = 2, duration = 7\<rparr>]\<rparr>"

text \<open>That recorder after \<open>clearMetrics\<close> and a new round of the three marks.\<close>

definition remarked_state :: state where
  "remarked_state = marks [(create, 11), (load, 12), (fullLoad, 15)] (clearMetrics sample_state_after)"

text \<open>The sample of three frames of 16.67 ms, in a recorder whose marks are recorded.\<close>

definition on_target_sample :: "number list" where
  "on_target_sample = [Num (1667 / 100), Num (1667 / 100), Num (1667 / 100)]"

definition on_target_state :: state where
  "on_target_state = \<lparr>lastFrameTime = Some (Num (5001 / 100)), frameTimes = on_target_sample,
                       timeline = timeline loaded_state\<rparr>"

text \<open>A box given with its southwest longitude above its northeast longitude.\<close>

definition wrapped_box :: LngLatBounds where
  "wrapped_box = \<lparr>bounds_sw = Some \<lparr>lng = 170, lat = - 10\<rparr>,
                   bounds_ne = Some \<lparr>lng = - 170, lat = 10\<rparr>\<rparr>"

text \<open>Two wrappers for the same URL alive at the same time.\<close>

definition first_wrapper :: "RequestPerformance \<times> timeline" where
  "first_wrapper = RequestPerformance_new \<lparr>url = ''u''\<rparr> 1 []"

definition second_wrapper :: "RequestPerformance \<times> timeline" where
  "second_wrapper = RequestPerformance_new \<lparr>url = ''u''\<rparr> 2 (snd first_wrapper)"

text \<open>The same with an unrelated resource entry in the log.\<close>

definition other_entry :: PerformanceEntry where
  "other_entry = \<lparr>name = ''b'', entryType = ResourceEntry, startTime = 0, duration = 1\<rparr>"

definition early_wrapper :: "RequestPerformance \<times> timeline" where
  "early_wrapper = RequestPerformance_new \<lparr>url = ''a''\<rparr> 1 [other_entry]"

definition late_wrapper :: "RequestPerformance \<times> timeline" where
  "late_wrapper = RequestPerformance_new \<lparr>url = ''a''\<rparr> 2 (snd early_wrapper)"

section \<open>Facts about the timing facility\<close>

lemmas facility_defs = performance_mark_def find_mark_def is_mark_def is_measure_def
  performance_measure_def getEntriesByName_def clearMarks_def clearMeasures_def

lemmas recorder_defs = mark_def marks_def frame_def frames_def clearMetrics_def
  getPerformanceMetrics_def first_duration_def loadTimeKey_def fullLoadTimeKey_def
  fps_of_def avgFrameTime_of_def percentDroppedFrames_of_def droppedFrames_of_def
  frameTimeTarget_def minFramerateTarget_def js_sub_def js_sign_inf_def
  fresh_state_def loaded_state_def marks_present_def

lemma find_mark_append_other:
  "\<not> is_mark n e \<Longrightarrow> find_mark n (tln @ [e]) = find_mark n tln"
  by (simp add: find_mark_def)

lemma find_mark_append_measure [simp]:
  "find_mark n (tln @ [\<lparr>name = k, entryType = MeasureEntry, startTime = a, duration = d\<rparr>])
     = find_mark n tln"
  by (simp add: find_mark_append_other is_mark_def)

lemma getEntriesByName_Nil_iff:
  "getEntriesByName n tln = [] \<longleftrightarrow> (\<forall>e \<in> set tln. name e \<noteq> n)"
proof -
  have "getEntriesByName n tln = [] \<longleftrightarrow> set (getEntriesByName n tln) = {}"
    by simp
  also have "\<dots> \<longleftrightarrow> (\<forall>e \<in> set tln. name e \<noteq> n)"
    by (auto simp: getEntriesByName_def)
  finally show ?thesis .
qed

lemma first_duration_Inr:
  "es \<noteq> [] \<Longrightarrow> \<exists>d. first_duration es = Inr d"
  by (cases es) (simp_all add: first_duration_def)

section \<open>Facts about the recorder\<close>

lemma getPerformanceMetrics_returns:
  assumes "marks_present (timeline s)"
  shows "\<exists>lt flt tl2. getPerformanceMetrics s =
           Inr (\<lparr>loadTime = lt, fullLoadTime = flt, fps = fps_of (frameTimes s),
                 percentDroppedFrames = percentDroppedFrames_of (frameTimes s),
                 totalFrames = length (frameTimes s)\<rparr>, s\<lparr>timeline := tl2\<rparr>)
           \<and> marks_present tl2"
proof -
  from assms obtain c l f where c: "find_mark (marker_value create) (timeline s) = Some c"
    and l: "find_mark (marker_value load) (timeline s) = Some l"
    and f: "find_mark (marker_value fullLoad) (timeline s) = Some f"
    by (auto simp: marks_present_def)
  define m1 where "m1 = \<lparr>name = loadTimeKey, entryType = MeasureEntry,
                          startTime = startTime c, duration = startTime l - startTime c\<rparr>"
  define m2 where "m2 = \<lparr>name = fullLoadTimeKey, entryType = MeasureEntry,
                          startTime = startTime c, duration = startTime f - startTime c\<rparr>"
  define tl1 where "tl1 = timeline s @ [m1]"
  define tl2 where "tl2 = tl1 @ [m2]"
  have p1: "performance_measure loadTimeKey (marker_value create) (marker_value load)
              (timeline s) = Inr tl1"
    using c l by (simp add: performance_measure_def tl1_def m1_def)
  have c1: "find_mark (marker_value create) tl1 = Some c"
    and f1: "find_mark (marker_value fullLoad) tl1 = Some f"
    and l1: "find_mark (marker_value load) tl1 = Some l"
    using c f l unfolding tl1_def m1_def by simp_all
  have p2: "performance_measure fullLoadTimeKey (marker_value create) (marker_value fullLoad)
              tl1 = Inr tl2"
    using c1 f1 by (simp add: performance_measure_def tl2_def m2_def)
  have mp: "marks_present tl2"
    using c1 f1 l1 unfolding marks_present_def tl2_def m2_def by simp
  have "getEntriesByName loadTimeKey tl2 \<noteq> []"
    by (simp add: getEntriesByName_Nil_iff tl2_def tl1_def m1_def)
  then obtain lt where lt: "first_duration (getEntriesByName loadTimeKey tl2) = Inr lt"
    using first_duration_Inr by blast
  have "getEntriesByName fullLoadTimeKey tl2 \<noteq> []"
    by (simp add: getEntriesByName_Nil_iff tl2_def m2_def)
  then obtain flt where flt: "first_duration (getEntriesByName fullLoadTimeKey tl2) = Inr flt"
    using first_duration_Inr by blast
  have "getPerformanceMetrics s =
           Inr (\<lparr>loadTime = lt, fullLoadTime = flt, fps = fps_of (frameTimes s),
                 percentDroppedFrames = percentDroppedFrames_of (frameTimes s),
                 totalFrames = length (frameTimes s)\<rparr>, s\<lparr>timeline := tl2\<rparr>)"
    using p1 p2 lt flt by (simp add: getPerformanceMetrics_def)
  with mp show ?thesis by blast
qed

lemma getPerformanceMetrics_Inr:
  assumes "getPerformanceMetrics s = Inr (m, s')"
  shows "fps m = fps_of (frameTimes s)"
    and "percentDroppedFrames m = percentDroppedFrames_of (frameTimes s)"
    and "totalFrames m = length (frameTimes s)"
    and "frameTimes s' = frameTimes s"
    and "lastFrameTime s' = lastFrameTime s"
  using assms by (auto simp: getPerformanceMetrics_def split: sum.splits)

lemma frame_frameTimes:
  "frameTimes (frame t s) =
     (case lastFrameTime s of None \<Rightarrow> frameTimes s | Some l \<Rightarrow> frameTimes s @ [js_sub t l])"
  by (simp add: frame_def Let_def split: option.splits)

lemma frame_lastFrameTime [simp]: "lastFrameTime (frame t s) = Some t"
  by (simp add: frame_def Let_def split: option.splits)

lemma frame_timeline [simp]: "timeline (frame t s) = timeline s"
  by (simp add: frame_def Let_def split: option.splits)

lemma frames_Nil [simp]: "frames [] s = s"
  by (simp add: frames_def)

lemma frames_Cons [simp]: "frames (t # ts) s = frames ts (frame t s)"
  by (simp add: frames_def)

lemma frames_timeline [simp]: "timeline (frames ts s) = timeline s"
  by (induction ts arbitrary: s) simp_all

lemma length_frames_seeded:
  "lastFrameTime s \<noteq> None \<Longrightarrow>
     length (frameTimes (frames ts s)) = length (frameTimes s) + length ts"
  by (induction ts arbitrary: s) (auto simp: frame_frameTimes)

lemma length_frames_unseeded:
  "lastFrameTime s = None \<Longrightarrow>
     length (frameTimes (frames ts s)) = length (frameTimes s) + (length ts - 1)"
  by (cases ts) (simp_all add: length_frames_seeded frame_frameTimes)

lemma marks_frameTimes [simp]: "frameTimes (marks ms s) = frameTimes s"
  unfolding marks_def by (induction ms arbitrary: s) (simp_all add: mark_def split: prod.splits)

lemma marks_lastFrameTime [simp]: "lastFrameTime (marks ms s) = lastFrameTime s"
  unfolding marks_def by (induction ms arbitrary: s) (simp_all add: mark_def split: prod.splits)

lemma clearMetrics_resets:
  "lastFrameTime (clearMetrics s) = None" "frameTimes (clearMetrics s) = []"
  by (simp_all add: clearMetrics_def)

lemma initial_state_unset:
  "lastFrameTime (initial_state tln) = None" "frameTimes (initial_state tln) = []"
  by (simp_all add: initial_state_def)

lemma loaded_state_marks: "marks_present (timeline loaded_state)"
  by (simp add: recorder_defs facility_defs)

section \<open>Frame counting\<close>

text \<open>
  Claim C2. Take a fresh recorder or one just cleared by \<open>clearMetrics\<close>, possibly
  followed by calls of \<open>mark\<close>. The first call of \<open>frame\<close> records nothing, and
  \<open>frame(ta)\<close> then \<open>frame(tb)\<close> records exactly the one delta \<open>tb - ta\<close>. After \<open>n\<close>
  calls of \<open>frame\<close> the sample has \<open>n - 1\<close> elements (0 for \<open>n = 0\<close>, by truncated
  subtraction on naturals); whatever \<open>getPerformanceMetrics\<close> returns then has
  \<open>totalFrames = n - 1\<close>, and it does return when the three lifecycle marks are in the log.
\<close>

theorem frame_count:
  assumes "s1 = initial_state tln0 \<or> s1 = clearMetrics s0" and "s = marks ms s1"
  shows "frameTimes s = [] \<and> frameTimes (frame ta s) = []
     \<and> frameTimes (frame tb (frame ta s)) = [js_sub tb ta]
     \<and> length (frameTimes (frames ts s)) = length ts - 1
     \<and> (\<forall>m s'. getPerformanceMetrics (frames ts s) = Inr (m, s')
            \<longrightarrow> totalFrames m = length ts - 1)
     \<and> (marks_present (timeline s) \<longrightarrow>
          (\<exists>m s'. getPerformanceMetrics (frames ts s) = Inr (m, s')
              \<and> totalFrames m = length ts - 1))"
proof (intro conjI)
  from assms(1) have "lastFrameTime s1 = None \<and> frameTimes s1 = []"
    by (auto simp: clearMetrics_resets initial_state_unset)
  with assms(2) have unset: "lastFrameTime s = None" and empty: "frameTimes s = []"
    by simp_all
  show "frameTimes s = []"
    by (rule empty)
  show "frameTimes (frame ta s) = []"
    using unset empty by (simp add: frame_frameTimes)
  show "frameTimes (frame tb (frame ta s)) = [js_sub tb ta]"
    using unset empty by (simp add: frame_frameTimes)
  show len: "length (frameTimes (frames ts s)) = length ts - 1"
    using unset empty by (simp add: length_frames_unseeded)
  show "\<forall>m s'. getPerformanceMetrics (frames ts s) = Inr (m, s')
          \<longrightarrow> totalFrames m = length ts - 1"
    using len getPerformanceMetrics_Inr(3) by metis
  show "marks_present (timeline s) \<longrightarrow>
          (\<exists>m s'. getPerformanceMetrics (frames ts s) = Inr (m, s')
              \<and> totalFrames m = length ts - 1)"
  proof
    assume "marks_present (timeline s)"
    then have "marks_present (timeline (frames ts s))"
      by simp
    from getPerformanceMetrics_returns [OF this] len
    show "\<exists>m s'. getPerformanceMetrics (frames ts s) = Inr (m, s')
            \<and> totalFrames m = length ts - 1"
      by fastforce
  qed
qed

theorem frame_count_witness:
  "remarked_state = marks [(create, 11), (load, 12), (fullLoad, 15)] (clearMetrics sample_state_after)
   \<and> frameTimes sample_state_after = [Num 10, Num 40]
   \<and> marks_present (timeline remarked_state)
   \<and> frameTimes (frame (Num 4) remarked_state) = []
   \<and> frameTimes (frame (Num 10) (frame (Num 4) remarked_state)) = [Num 6]
   \<and> (\<exists>m s'. getPerformanceMetrics (frames [] remarked_state) = Inr (m, s') \<and> totalFrames m = 0)
   \<and> (\<exists>m s'. getPerformanceMetrics (frames [Num 7] remarked_state) = Inr (m, s')
         \<and> totalFrames m = 0)
   \<and> (\<exists>m s'. getPerformanceMetrics (frames [Num 0, Num 10, Num 50] remarked_state) = Inr (m, s')
         \<and> totalFrames m = 2)
   \<and> loaded_state = marks [(create, 2), (load, 7), (fullLoad, 9)] (initial_state [])
   \<and> marks_present (timeline loaded_state)
   \<and> (\<exists>m s'. getPerformanceMetrics (frames [Num 0, Num 10, Num 50] loaded_state) = Inr (m, s')
         \<and> totalFrames m = 2)"
proof -
  have c1: "clearMetrics sample_state_after = initial_state tln0
              \<or> clearMetrics sample_state_after = clearMetrics sample_state_after" for tln0
    by simp
  have c2: "remarked_state
              = marks [(create, 11), (load, 12), (fullLoad, 15)] (clearMetrics sample_state_after)"
    by (simp add: remarked_state_def)
  have old: "frameTimes sample_state_after = [Num 10, Num 40]"
    by (simp add: sample_state_after_def sample_state_def recorder_defs Let_def)
  have mp: "marks_present (timeline remarked_state)"
    by (simp add: remarked_state_def sample_state_after_def sample_state_def recorder_defs
          facility_defs Let_def)
  have i1: "initial_state [] = initial_state [] \<or> initial_state [] = clearMetrics s0" for s0
    by simp
  have i2: "loaded_state = marks [(create, 2), (load, 7), (fullLoad, 9)] (initial_state [])"
    by (simp add: loaded_state_def fresh_state_def initial_state_def)
  note cleared = frame_count [OF c1 c2, where ta = "Num 4" and tb = "Num 10"]
  note fresh = frame_count [OF i1 i2, where ta = "Num 4" and tb = "Num 10"]
  show ?thesis
    using c2 old mp i2 loaded_state_marks cleared [where ts = "[]"] cleared [where ts = "[Num 7]"]
      cleared [where ts = "[Num 0, Num 10, Num 50]"] fresh [where ts = "[Num 0, Num 10, Num 50]"]
    by (simp add: js_sub_def eval_nat_numeral)
qed

section \<open>Dropped-frame weighting\<close>

lemma sample_run: "getPerformanceMetrics sample_state = Inr (sample_metrics, sample_state_after)"
  by (simp add: sample_state_def sample_metrics_def sample_state_after_def recorder_defs facility_defs Let_def)

lemma frameTimeTarget_spec: "frameTimeTarget = spec_target"
  by (simp add: frameTimeTarget_def minFramerateTarget_def spec_target_def)

lemma droppedFrames_of_spec: "droppedFrames_of fts = spec_droppedWeight fts"
  by (simp add: droppedFrames_of_def spec_droppedWeight_def js_sum_def frameTimeTarget_spec foldl_map)

lemma percentDroppedFrames_of_spec: "percentDroppedFrames_of fts = spec_percentDroppedFrames fts"
  by (simp add: percentDroppedFrames_of_def spec_percentDroppedFrames_def droppedFrames_of_spec)

lemma foldl_add_Num: "foldl js_add (Num a) (map Num xs) = Num (a + sum_list xs)"
  by (induction xs arbitrary: a) (simp_all add: add.assoc)

lemma weight_real:
  assumes "T \<noteq> 0"
  shows "js_sum (map (\<lambda>frameTime. js_div (js_sub frameTime (Num T)) (Num T))
                  (filter (\<lambda>frameTime. js_gt frameTime (Num T)) (map Num xs)))
           = Num (\<Sum>ft\<leftarrow>filter (\<lambda>ft. ft > T) xs. (ft - T) / T)"
proof -
  have f: "filter (\<lambda>frameTime. js_gt frameTime (Num T)) (map Num xs)
             = map Num (filter (\<lambda>ft. ft > T) xs)"
    by (induction xs) simp_all
  have m: "map (\<lambda>frameTime. js_div (js_sub frameTime (Num T)) (Num T)) (map Num ys)
             = map Num (map (\<lambda>ft. (ft - T) / T) ys)" for ys
    using assms by (induction ys) (simp_all add: js_sub_def)
  show ?thesis
    unfolding js_sum_def f m foldl_add_Num by simp
qed

lemma spec_droppedWeight_real:
  "spec_droppedWeight (map Num xs) =
     Num (\<Sum>ft\<leftarrow>filter (\<lambda>ft. ft > 1000 / 60) xs. (ft - 1000 / 60) / (1000 / 60))"
proof -
  have t: "spec_target = Num (1000 / 60)"
    by (simp add: spec_target_def)
  show ?thesis
    unfolding spec_droppedWeight_def t by (rule weight_real) simp
qed

text \<open>
  Claim C1. For every sample, the \<open>droppedFrames\<close> that \<open>getPerformanceMetrics\<close>
  computes is the sum of \<open>(frameTime - target) / target\<close> over exactly the frame times
  that strictly exceed \<open>target = 1000 / 60\<close>; the returned \<open>percentDroppedFrames\<close> is
  \<open>droppedWeight / (totalFrames + droppedWeight) * 100\<close> with \<open>totalFrames\<close> the length
  of the sample. On a sample of finite reals the sum is the ordinary sum of reals.
\<close>

theorem dropped_frame_weighting:
  assumes "getPerformanceMetrics s = Inr (m, s')"
  shows "droppedFrames_of (frameTimes s) = spec_droppedWeight (frameTimes s)
     \<and> totalFrames m = length (frameTimes s)
     \<and> percentDroppedFrames m = spec_percentDroppedFrames (frameTimes s)
     \<and> (\<forall>xs. frameTimes s = map Num xs \<longrightarrow>
           spec_droppedWeight (frameTimes s) =
             Num (\<Sum>ft\<leftarrow>filter (\<lambda>ft. ft > 1000 / 60) xs. (ft - 1000 / 60) / (1000 / 60)))"
proof (intro conjI allI impI)
  show "droppedFrames_of (frameTimes s) = spec_droppedWeight (frameTimes s)"
    by (rule droppedFrames_of_spec)
  show "totalFrames m = length (frameTimes s)"
    by (rule getPerformanceMetrics_Inr(3) [OF assms])
  show "percentDroppedFrames m = spec_percentDroppedFrames (frameTimes s)"
    using getPerformanceMetrics_Inr(2) [OF assms] by (simp add: percentDroppedFrames_of_spec)
  fix xs
  assume "frameTimes s = map Num xs"
  then show "spec_droppedWeight (frameTimes s) =
      Num (\<Sum>ft\<leftarrow>filter (\<lambda>ft. ft > 1000 / 60) xs. (ft - 1000 / 60) / (1000 / 60))"
    by (simp only: spec_droppedWeight_real)
qed

theorem dropped_frame_weighting_witness:
  "getPerformanceMetrics sample_state = Inr (sample_metrics, sample_state_after)
   \<and> frameTimes sample_state = map Num [10, 40]
   \<and> droppedFrames_of (frameTimes sample_state) = Num (7 / 5)
   \<and> spec_droppedWeight (frameTimes sample_state) = Num (7 / 5)
   \<and> totalFrames sample_metrics = 2
   \<and> percentDroppedFrames sample_metrics = spec_percentDroppedFrames (frameTimes sample_state)
   \<and> spec_percentDroppedFrames (frameTimes sample_state) = Num (700 / 17)"
proof -
  have ft: "frameTimes sample_state = map Num [10, 40]"
    by (simp add: sample_state_def recorder_defs Let_def)
  note th = dropped_frame_weighting [OF sample_run]
  from th ft have "spec_droppedWeight (frameTimes sample_state) =
      Num (\<Sum>ft\<leftarrow>filter (\<lambda>ft. ft > 1000 / 60) [10, 40]. (ft - 1000 / 60) / (1000 / 60))"
    by blast
  then have dw: "spec_droppedWeight (frameTimes sample_state) = Num (7 / 5)"
    by simp
  from th have "percentDroppedFrames sample_metrics = spec_percentDroppedFrames (frameTimes sample_state)"
    and "droppedFrames_of (frameTimes sample_state) = spec_droppedWeight (frameTimes sample_state)"
    and "totalFrames sample_metrics = length (frameTimes sample_state)"
    by simp_all
  then show ?thesis
    using sample_run ft dw by (simp add: sample_metrics_def)
qed

section \<open>Repeated queries\<close>

lemma getPerformanceMetrics_Inr_marks:
  assumes "getPerformanceMetrics s = Inr (m, s')"
  shows "marks_present (timeline s')"
proof -
  from assms have "marks_present (timeline s)"
    by (auto simp: getPerformanceMetrics_def performance_measure_def marks_present_def
             split: sum.splits option.splits)
  from getPerformanceMetrics_returns [OF this] assms show ?thesis
    by auto
qed

lemma getPerformanceMetrics_times_stable:
  assumes "marks_present (timeline s)"
  shows "\<exists>ms s2. getPerformanceMetrics_times n s = Inr (ms, s2) \<and> length ms = n
           \<and> list_all (\<lambda>m. totalFrames m = length (frameTimes s) \<and> fps m = fps_of (frameTimes s)
                \<and> percentDroppedFrames m = percentDroppedFrames_of (frameTimes s)) ms
           \<and> frameTimes s2 = frameTimes s \<and> lastFrameTime s2 = lastFrameTime s"
  using assms
proof (induction n arbitrary: s)
  case 0
  then show ?case by simp
next
  case (Suc n)
  from getPerformanceMetrics_returns [OF Suc.prems]
  obtain lt flt tl2 where run: "getPerformanceMetrics s =
           Inr (\<lparr>loadTime = lt, fullLoadTime = flt, fps = fps_of (frameTimes s),
                 percentDroppedFrames = percentDroppedFrames_of (frameTimes s),
                 totalFrames = length (frameTimes s)\<rparr>, s\<lparr>timeline := tl2\<rparr>)"
    and mp: "marks_present tl2"
    by blast
  have "marks_present (timeline (s\<lparr>timeline := tl2\<rparr>))"
    using mp by simp
  from Suc.IH [OF this] obtain ms s2 where
    rest: "getPerformanceMetrics_times n (s\<lparr>timeline := tl2\<rparr>) = Inr (ms, s2)"
    and len: "length ms = n"
    and same: "list_all (\<lambda>m. totalFrames m = length (frameTimes s) \<and> fps m = fps_of (frameTimes s)
                \<and> percentDroppedFrames m = percentDroppedFrames_of (frameTimes s)) ms"
    and st: "frameTimes s2 = frameTimes s" "lastFrameTime s2 = lastFrameTime s"
    by auto
  show ?case
    using run rest len same st by simp
qed

text \<open>
  Claim C6. \<open>getPerformanceMetrics\<close> leaves \<open>frameTimes\<close> and the last-frame baseline as
  they were, so any number of further calls with nothing in between return, and return the
  same \<open>totalFrames\<close>, \<open>fps\<close> and \<open>percentDroppedFrames\<close> as the first.
\<close>

theorem metrics_idempotent:
  assumes "getPerformanceMetrics s = Inr (m, s')"
  shows "frameTimes s' = frameTimes s \<and> lastFrameTime s' = lastFrameTime s
     \<and> (\<exists>ms s2. getPerformanceMetrics_times n s' = Inr (ms, s2) \<and> length ms = n
           \<and> list_all (\<lambda>m2. totalFrames m2 = totalFrames m \<and> fps m2 = fps m
                \<and> percentDroppedFrames m2 = percentDroppedFrames m) ms
           \<and> frameTimes s2 = frameTimes s \<and> lastFrameTime s2 = lastFrameTime s)"
proof -
  note r = getPerformanceMetrics_Inr [OF assms]
  from getPerformanceMetrics_times_stable [OF getPerformanceMetrics_Inr_marks [OF assms], of n]
  show ?thesis
    using r by simp
qed

theorem metrics_idempotent_witness:
  "getPerformanceMetrics sample_state = Inr (sample_metrics, sample_state_after)
   \<and> frameTimes sample_state_after = frameTimes sample_state
   \<and> lastFrameTime sample_state_after = lastFrameTime sample_state
   \<and> (\<exists>ms s2. getPerformanceMetrics_times 3 sample_state_after = Inr (ms, s2) \<and> length ms = 3
         \<and> list_all (\<lambda>m2. totalFrames m2 = 2 \<and> fps m2 = Num 40
                \<and> percentDroppedFrames m2 = Num (700 / 17)) ms)"
  using metrics_idempotent [OF sample_run, of 3] sample_run
  by (auto simp: sample_metrics_def)

section \<open>Metrics of an empty sample\<close>

lemma fps_of_Nil: "fps_of [] = NaN"
  by (simp add: fps_of_def avgFrameTime_of_def)

lemma percentDroppedFrames_of_Nil: "percentDroppedFrames_of [] = NaN"
  by (simp add: percentDroppedFrames_of_def droppedFrames_of_def)

lemma getPerformanceMetrics_after_clearMetrics:
  "getPerformanceMetrics (clearMetrics s) = Inl SyntaxError"
proof -
  have "find_mark (marker_value create) (timeline (clearMetrics s)) = None"
    by (auto simp: find_mark_def find_None_iff clearMetrics_def clearMarks_def)
  then show ?thesis
    by (simp add: getPerformanceMetrics_def performance_measure_def)
qed

text \<open>
  Claim C3, as stated, fails: \<open>clearMetrics\<close> itself removes the \<open>create\<close>, \<open>load\<close> and
  \<open>fullLoad\<close> marks, so a \<open>getPerformanceMetrics\<close> that follows it directly fails in
  \<open>performance.measure\<close>.
\<close>

theorem cleared_metrics_counterexample:
  "getPerformanceMetrics (clearMetrics sample_state_after) = Inl SyntaxError"
  by (simp add: sample_state_after_def sample_state_def recorder_defs facility_defs Let_def)

text \<open>
  Claim C3, amended. After \<open>clearMetrics\<close>, once calls of \<open>mark\<close> have put the three
  lifecycle marks back into the log and with no call of \<open>frame\<close> in between,
  \<open>getPerformanceMetrics\<close> returns \<open>totalFrames = 0\<close> and \<open>NaN\<close> for both \<open>fps\<close> and
  \<open>percentDroppedFrames\<close>.
\<close>

theorem cleared_metrics_nan:
  assumes "marks_present (timeline (marks ms (clearMetrics s)))"
  shows "\<exists>m s'. getPerformanceMetrics (marks ms (clearMetrics s)) = Inr (m, s')
           \<and> totalFrames m = 0 \<and> fps m = NaN \<and> percentDroppedFrames m = NaN"
proof -
  have "frameTimes (marks ms (clearMetrics s)) = []"
    by (simp add: clearMetrics_def)
  with getPerformanceMetrics_returns [OF assms] show ?thesis
    by (auto simp: fps_of_Nil percentDroppedFrames_of_Nil)
qed

theorem cleared_metrics_nan_witness:
  "marks_present (timeline (marks [(create, 11), (load, 12), (fullLoad, 15)] (clearMetrics sample_state_after)))
   \<and> (\<exists>m s'. getPerformanceMetrics
          (marks [(create, 11), (load, 12), (fullLoad, 15)] (clearMetrics sample_state_after)) = Inr (m, s')
        \<and> totalFrames m = 0 \<and> fps m = NaN \<and> percentDroppedFrames m = NaN)"
proof -
  have h: "marks_present (timeline (marks [(create, 11), (load, 12), (fullLoad, 15)]
             (clearMetrics sample_state_after)))"
    by (simp add: sample_state_after_def sample_state_def recorder_defs facility_defs Let_def)
  show ?thesis
    using h cleared_metrics_nan [OF h] by simp
qed

section \<open>Frames of 16.67 ms\<close>

lemma on_target_values:
  "droppedFrames_of on_target_sample = Num (3 / 5000)"
  "percentDroppedFrames_of on_target_sample = Num (100 / 5001)"
  "fps_of on_target_sample = Num (100000 / 1667)"
  by (simp_all add: on_target_sample_def recorder_defs)

text \<open>
  Claim C7, as stated, fails: 16.67 is strictly above \<open>1000 / 60 = 16.666\<dots>\<close>, so each of
  the three frames passes the filter and adds \<open>1 / 5000\<close> to \<open>droppedFrames\<close>; the
  returned \<open>percentDroppedFrames\<close> is \<open>100 / 5001\<close>, not 0.
\<close>

theorem on_target_sample_counterexample:
  "getPerformanceMetrics on_target_state =
     Inr (\<lparr>loadTime = Num 5, fullLoadTime = Num 7, fps = Num (100000 / 1667),
           percentDroppedFrames = Num (100 / 5001), totalFrames = 3\<rparr>,
          on_target_state\<lparr>timeline := timeline on_target_state @
            [\<lparr>name = ''loadTime'', entryType = MeasureEntry, startTime = 2, duration = 5\<rparr>,
             \<lparr>name = ''fullLoadTime'', entryType = MeasureEntry, startTime = 2, duration = 7\<rparr>]\<rparr>)
   \<and> Num (100 / 5001) \<noteq> Num 0
   \<and> droppedFrames_of (frameTimes on_target_state) = Num (3 / 5000)"
  by (simp add: on_target_state_def on_target_sample_def recorder_defs facility_defs Let_def)

text \<open>
  Claim C7, amended. For the sample \<open>[16.67, 16.67, 16.67]\<close>, \<open>getPerformanceMetrics\<close>
  returns \<open>fps = 100000 / 1667\<close>, which is within 0.02 of 60, and
  \<open>percentDroppedFrames = 100 / 5001\<close> (about 0.02): frames of 16.67 ms exceed the budget
  of \<open>1000 / 60\<close> ms and together contribute \<open>3 / 5000\<close> to \<open>droppedFrames\<close>.
\<close>

theorem on_target_sample_metrics:
  assumes "frameTimes s = on_target_sample" and "marks_present (timeline s)"
  shows "\<exists>m s'. getPerformanceMetrics s = Inr (m, s') \<and> totalFrames m = 3
           \<and> fps m = Num (100000 / 1667) \<and> \<bar>100000 / 1667 - 60\<bar> < (2 / 100 :: real)
           \<and> droppedFrames_of (frameTimes s) = Num (3 / 5000)
           \<and> percentDroppedFrames m = Num (100 / 5001)"
proof -
  have len: "length on_target_sample = 3"
    by (simp add: on_target_sample_def)
  from getPerformanceMetrics_returns [OF assms(2)] show ?thesis
    using assms(1) len by (auto simp: on_target_values)
qed

theorem on_target_sample_metrics_witness:
  "frameTimes (frames [Num 0, Num (1667 / 100), Num (3334 / 100), Num (5001 / 100)] loaded_state)
     = on_target_sample
   \<and> marks_present
       (timeline (frames [Num 0, Num (1667 / 100), Num (3334 / 100), Num (5001 / 100)] loaded_state))
   \<and> (\<exists>m s'. getPerformanceMetrics
          (frames [Num 0, Num (1667 / 100), Num (3334 / 100), Num (5001 / 100)] loaded_state)
            = Inr (m, s')
        \<and> totalFrames m = 3 \<and> fps m = Num (100000 / 1667)
        \<and> percentDroppedFrames m = Num (100 / 5001))"
proof -
  have h1: "frameTimes (frames [Num 0, Num (1667 / 100), Num (3334 / 100), Num (5001 / 100)]
              loaded_state) = on_target_sample"
    by (simp add: on_target_sample_def frame_frameTimes js_sub_def loaded_state_def marks_def
          mark_def fresh_state_def)
  have h2: "marks_present (timeline
      (frames [Num 0, Num (1667 / 100), Num (3334 / 100), Num (5001 / 100)] loaded_state))"
    using loaded_state_marks by simp
  from on_target_sample_metrics [OF h1 h2] show ?thesis
    using h1 h2 by blast
qed

section \<open>Sign of the recorded frame times\<close>

lemma sorted_wrt_successive:
  "sorted_wrt R ts \<Longrightarrow> (a, b) \<in> set (zip ts (tl ts)) \<Longrightarrow> R a b"
proof (induction ts)
  case Nil
  then show ?case by simp
next
  case (Cons t ts)
  then show ?case
    by (cases ts) auto
qed

lemma frames_seeded_deltas:
  "lastFrameTime s = Some (Num l) \<Longrightarrow>
     frameTimes (frames (map Num ts) s)
       = frameTimes s @ map (\<lambda>(a, b). Num (b - a)) (zip (l # ts) ts)"
proof (induction ts arbitrary: s l)
  case Nil
  then show ?case by simp
next
  case (Cons t ts)
  have "lastFrameTime (frame (Num t) s) = Some (Num t)"
    by simp
  from Cons.IH [OF this] Cons.prems show ?case
    by (simp add: frame_frameTimes js_sub_def)
qed

lemma frames_unseeded_deltas:
  assumes "lastFrameTime s = None"
  shows "frameTimes (frames (map Num ts) s)
           = frameTimes s @ map (\<lambda>(a, b). Num (b - a)) (zip ts (tl ts))"
proof (cases ts)
  case Nil
  then show ?thesis by simp
next
  case (Cons t ts')
  have "lastFrameTime (frame (Num t) s) = Some (Num t)"
    by simp
  from frames_seeded_deltas [OF this, of ts'] assms Cons show ?thesis
    by (simp add: frame_frameTimes)
qed

lemma frame_prefix: "prefix (frameTimes s) (frameTimes (frame t s))"
  by (simp add: frame_frameTimes split: option.splits)

lemma frames_prefix: "prefix (frameTimes s) (frameTimes (frames ts s))"
proof (induction ts arbitrary: s)
  case Nil
  then show ?case by simp
next
  case (Cons t ts)
  have "prefix (frameTimes s) (frameTimes (frame t s))"
    by (rule frame_prefix)
  also have "prefix \<dots> (frameTimes (frames ts (frame t s)))"
    by (rule Cons.IH)
  finally show ?case by simp
qed

text \<open>
  Claim C8, as stated, fails: two calls of \<open>frame\<close> with the same timestamp are
  non-decreasing and record the delta 0, which is not positive.
\<close>

theorem frame_times_positive_counterexample:
  "sorted [5 :: real, 5]
   \<and> frameTimes (frames (map Num [5, 5]) fresh_state) = [Num 0]
   \<and> \<not> list_all positive_number (frameTimes (frames (map Num [5, 5]) fresh_state))"
  by (simp add: recorder_defs Let_def)

text \<open>
  Claim C8, amended. From a recorder with no baseline and an empty sample, calls of
  \<open>frame\<close> with non-decreasing finite timestamps record only non-negative reals, and only
  positive reals when the timestamps are strictly increasing. The sample is append-only:
  \<open>frame\<close> keeps the recorded elements as a prefix (whatever the timestamps), and \<open>mark\<close>
  and \<open>getPerformanceMetrics\<close> leave the sample unchanged.
\<close>

theorem frame_times_nonneg:
  assumes "lastFrameTime s = None" and "frameTimes s = []" and "sorted ts"
  shows "list_all nonneg_number (frameTimes (frames (map Num ts) s))
     \<and> (sorted_wrt (<) ts \<longrightarrow> list_all positive_number (frameTimes (frames (map Num ts) s)))
     \<and> (\<forall>s0 t. prefix (frameTimes s0) (frameTimes (frame t s0)))
     \<and> (\<forall>s0 us. prefix (frameTimes s0) (frameTimes (frames us s0)))
     \<and> (\<forall>s0 k now. frameTimes (mark k now s0) = frameTimes s0)
     \<and> (\<forall>s0 m s1. getPerformanceMetrics s0 = Inr (m, s1) \<longrightarrow> frameTimes s1 = frameTimes s0)"
proof (intro conjI impI allI)
  have ft: "frameTimes (frames (map Num ts) s) = map (\<lambda>(a, b). Num (b - a)) (zip ts (tl ts))"
    using frames_unseeded_deltas [OF assms(1), of ts] assms(2) by simp
  show "list_all nonneg_number (frameTimes (frames (map Num ts) s))"
    unfolding ft list_all_iff using sorted_wrt_successive [OF assms(3)] by fastforce
  show "list_all positive_number (frameTimes (frames (map Num ts) s))" if "sorted_wrt (<) ts"
    unfolding ft list_all_iff using sorted_wrt_successive [OF that] by fastforce
  show "prefix (frameTimes s0) (frameTimes (frame t s0))" for s0 t
    by (rule frame_prefix)
  show "prefix (frameTimes s0) (frameTimes (frames us s0))" for s0 us
    by (rule frames_prefix)
  show "frameTimes (mark k now s0) = frameTimes s0" for s0 k now
    by (simp add: mark_def)
  show "frameTimes s1 = frameTimes s0" if "getPerformanceMetrics s0 = Inr (m, s1)" for s0 m s1
    by (rule getPerformanceMetrics_Inr(4) [OF that])
qed

theorem frame_times_nonneg_witness:
  "lastFrameTime fresh_state = None \<and> frameTimes fresh_state = [] \<and> sorted [1 :: real, 4, 4, 9]
   \<and> frameTimes (frames (map Num [1, 4, 4, 9]) fresh_state) = [Num 3, Num 0, Num 5]
   \<and> list_all nonneg_number (frameTimes (frames (map Num [1, 4, 4, 9]) fresh_state))
   \<and> sorted_wrt (<) [2 :: real, 3, 7]
   \<and> list_all positive_number (frameTimes (frames (map Num [2, 3, 7]) fresh_state))
   \<and> prefix (frameTimes sample_state) (frameTimes (frame (Num 60) sample_state))
   \<and> getPerformanceMetrics sample_state = Inr (sample_metrics, sample_state_after)
   \<and> frameTimes sample_state_after = frameTimes sample_state"
proof -
  have h1: "lastFrameTime fresh_state = None" and h2: "frameTimes fresh_state = []"
    by (simp_all add: fresh_state_def)
  have h3: "sorted [1 :: real, 4, 4, 9]"
    by simp
  have ev: "frameTimes (frames (map Num [1, 4, 4, 9]) fresh_state) = [Num 3, Num 0, Num 5]"
    by (simp add: fresh_state_def frame_frameTimes js_sub_def)
  have h4: "sorted [2 :: real, 3, 7]" and h5: "sorted_wrt (<) [2 :: real, 3, 7]"
    by simp_all
  from frame_times_nonneg [OF h1 h2 h3] frame_times_nonneg [OF h1 h2 h4] sample_run show ?thesis
    using h1 h2 h3 h5 ev by blast
qed

section \<open>Points in a bounding box\<close>

text \<open>
  What the branch for \<open>_sw.lng > _ne.lng\<close> computes: with the latitude in range, the
  result is true exactly for the longitudes from the northeast longitude up to the
  southwest longitude.
\<close>

lemma contains_wrapped_branch:
  assumes "bounds_sw this = Some sw" and "bounds_ne this = Some ne"
    and "lng sw > lng ne" and "lat sw \<le> lat p" and "lat p \<le> lat ne"
  shows "contains this p = Inr (lng ne \<le> lng p \<and> lng p \<le> lng sw)"
  using assms by (auto simp: contains_def)

text \<open>
  Claim C9. For a box whose southwest longitude exceeds its northeast longitude and a point
  whose latitude is within \<open>[south, north]\<close>, \<open>contains\<close> should be true exactly when the
  longitude is at least the west edge or at most the east edge. The code does not do this.
  For the box with west edge 170 and east edge -170 and latitudes from -10 to 10, the point
  at longitude 175 satisfies \<open>175 \<ge> 170\<close> and is rejected, and so is the point at longitude
  -175, which satisfies \<open>-175 \<le> -170\<close>; the point at longitude 0 satisfies neither and is
  accepted.
\<close>

theorem contains_wrapped_box:
  "getWest wrapped_box = Inr 170 \<and> getEast wrapped_box = Inr (- 170)
   \<and> getSouth wrapped_box = Inr (- 10) \<and> getNorth wrapped_box = Inr 10
   \<and> (175 :: real) \<ge> 170
   \<and> contains wrapped_box \<lparr>lng = 175, lat = 0\<rparr> = Inr False
   \<and> (- 175 :: real) \<le> - 170
   \<and> contains wrapped_box \<lparr>lng = - 175, lat = 5\<rparr> = Inr False
   \<and> (0 :: real) < 170 \<and> (0 :: real) > - 170
   \<and> contains wrapped_box \<lparr>lng = 0, lat = 0\<rparr> = Inr True"
  by (simp add: wrapped_box_def getWest_def getEast_def getSouth_def getNorth_def contains_def)

section \<open>Facts about \<open>finish\<close>\<close>

lemmas wrapper_defs = RequestPerformance_new_def finish_def

lemma find_mark_performance_mark_same:
  "find_mark n (performance_mark n now tln)
     = Some \<lparr>name = n, entryType = MarkEntry, startTime = now, duration = 0\<rparr>"
  by (simp add: find_mark_def performance_mark_def is_mark_def)

lemma find_mark_performance_mark_other:
  "n \<noteq> k \<Longrightarrow> find_mark n (performance_mark k now tln) = find_mark n tln"
  by (simp add: find_mark_def performance_mark_def is_mark_def)

lemma find_mark_append_keeps:
  "find_mark n tln \<noteq> None \<Longrightarrow> find_mark n (tln @ es) \<noteq> None"
  by (auto simp: find_mark_def find_None_iff)

lemma find_Some_set:
  "List.find P xs = Some x \<Longrightarrow> x \<in> set xs \<and> P x"
  by (induction xs) (auto split: if_splits)

lemma find_mark_Some:
  "find_mark n tln = Some e \<Longrightarrow> e \<in> set tln \<and> is_mark n e"
  using find_Some_set [of "is_mark n" "rev tln" e] by (simp add: find_mark_def)

lemma finish_observed:
  assumes "getEntriesByName (mark_measure this) (performance_mark (mark_end this) now tln) \<noteq> []"
  shows "finish this now tln =
           Inr (getEntriesByName (mark_measure this) (performance_mark (mark_end this) now tln),
                performance_mark (mark_end this) now tln)"
  using assms by (simp add: finish_def Let_def)

lemma instance_names:
  assumes "RequestPerformance_new request t0 tln0 = (this, tln1)"
  shows "mark_start this = url request @ ''#start''"
    and "mark_end this = url request @ ''#end''"
    and "mark_measure this = url request"
    and "mark_start this \<noteq> mark_end this"
    and "mark_start this \<noteq> mark_measure this"
    and "mark_end this \<noteq> mark_measure this"
    and "tln1 = tln0 @ [\<lparr>name = url request @ ''#start'', entryType = MarkEntry,
                         startTime = t0, duration = 0\<rparr>]"
  using assms by (auto simp: RequestPerformance_new_def Let_def performance_mark_def)

text \<open>
  With entries found by the first query, or with a mark under the wrapper's start name in
  the log, \<open>finish\<close> returns a non-empty sequence.
\<close>

lemma finish_returns_with_start_mark:
  assumes "getEntriesByName (mark_measure this) (performance_mark (mark_end this) now tln) \<noteq> []
           \<or> find_mark (mark_start this) tln \<noteq> None"
  shows "\<exists>resourceTimingData tln'. finish this now tln = Inr (resourceTimingData, tln')
           \<and> resourceTimingData \<noteq> []"
proof (cases "getEntriesByName (mark_measure this) (performance_mark (mark_end this) now tln) = []")
  case False
  from finish_observed [OF this] False show ?thesis
    by simp
next
  case True
  define tl1 where "tl1 = performance_mark (mark_end this) now tln"
  from True assms have "find_mark (mark_start this) tln \<noteq> None"
    by simp
  then have "find_mark (mark_start this) tl1 \<noteq> None"
    unfolding tl1_def performance_mark_def by (rule find_mark_append_keeps)
  then obtain s where s: "find_mark (mark_start this) tl1 = Some s"
    by auto
  have e: "find_mark (mark_end this) tl1
             = Some \<lparr>name = mark_end this, entryType = MarkEntry, startTime = now, duration = 0\<rparr>"
    unfolding tl1_def by (rule find_mark_performance_mark_same)
  define m where "m = \<lparr>name = mark_measure this, entryType = MeasureEntry,
                        startTime = startTime s, duration = now - startTime s\<rparr>"
  have pm: "performance_measure (mark_measure this) (mark_start this) (mark_end this) tl1
              = Inr (tl1 @ [m])"
    using s e by (simp add: performance_measure_def m_def)
  have ne: "getEntriesByName (mark_measure this) (tl1 @ [m]) \<noteq> []"
    by (simp add: getEntriesByName_Nil_iff m_def)
  have "finish this now tln =
          Inr (getEntriesByName (mark_measure this) (tl1 @ [m]),
               clearMeasures (mark_measure this)
                 (clearMarks (mark_end this) (clearMarks (mark_start this) (tl1 @ [m]))))"
    using True pm unfolding tl1_def by (simp add: finish_def Let_def)
  with ne show ?thesis
    by blast
qed

text \<open>
  Claim C4. \<open>finish\<close> should never throw, whatever the log holds. The code breaks this
  when two wrappers for the same URL are alive together. The first to finish takes the
  fallback path, and its cleanup clears every mark named \<open><url>#start\<close>, the other
  wrapper's included. When the second one finishes, its query is empty and
  \<open>performance.measure\<close> fails on the missing start mark: the call ends in an error, not
  in a sequence.
\<close>

theorem finish_throws_after_sibling_cleanup:
  "first_wrapper = RequestPerformance_new \<lparr>url = ''u''\<rparr> 1 []
   \<and> second_wrapper = RequestPerformance_new \<lparr>url = ''u''\<rparr> 2 (snd first_wrapper)
   \<and> finish (fst first_wrapper) 3 (snd second_wrapper)
       = Inr ([\<lparr>name = ''u'', entryType = MeasureEntry, startTime = 2, duration = 1\<rparr>], [])
   \<and> finish (fst second_wrapper) 4 [] = Inl SyntaxError"
  by (simp add: first_wrapper_def second_wrapper_def wrapper_defs facility_defs Let_def)

text \<open>
  With an empty first query and the start mark \<open>s\<close> in the log, \<open>finish\<close> returns the one
  measure from \<open>s\<close> to the end mark, and the log afterwards is the log from before the
  call without the marks of the wrapper's two mark names.
\<close>

lemma finish_fallback_with_start_mark:
  assumes inst: "RequestPerformance_new request t0 tln0 = (this, tln1)"
    and start: "find_mark (mark_start this) tln = Some s"
    and clock: "\<forall>x \<in> set tln. startTime x \<le> now"
    and empty: "getEntriesByName (mark_measure this) (performance_mark (mark_end this) now tln) = []"
  shows "finish this now tln =
           Inr ([\<lparr>name = mark_measure this, entryType = MeasureEntry, startTime = startTime s,
                   duration = now - startTime s\<rparr>],
                filter (\<lambda>x. \<not> is_mark (mark_start this) x \<and> \<not> is_mark (mark_end this) x) tln)"
    and "0 \<le> now - startTime s"
    and "\<forall>x \<in> set tln. name x \<noteq> mark_measure this"
proof -
  note names = instance_names [OF inst]
  define em where "em = \<lparr>name = mark_end this, entryType = MarkEntry, startTime = now, duration = 0\<rparr>"
  define tl1 where "tl1 = tln @ [em]"
  have tl1: "performance_mark (mark_end this) now tln = tl1"
    by (simp add: performance_mark_def tl1_def em_def)
  from find_mark_Some [OF start] clock show "0 \<le> now - startTime s"
    by simp
  have s1: "find_mark (mark_start this) tl1 = Some s"
    using start names(4) unfolding tl1 [symmetric] by (simp add: find_mark_performance_mark_other)
  have e1: "find_mark (mark_end this) tl1 = Some em"
    unfolding tl1 [symmetric] em_def by (rule find_mark_performance_mark_same)
  define m where "m = \<lparr>name = mark_measure this, entryType = MeasureEntry,
                        startTime = startTime s, duration = now - startTime s\<rparr>"
  have pm: "performance_measure (mark_measure this) (mark_start this) (mark_end this) tl1
              = Inr (tl1 @ [m])"
    using s1 e1 by (simp add: performance_measure_def m_def em_def)
  from empty have none: "\<forall>x \<in> set tl1. name x \<noteq> mark_measure this"
    unfolding tl1 by (simp add: getEntriesByName_Nil_iff)
  then show "\<forall>x \<in> set tln. name x \<noteq> mark_measure this"
    by (simp add: tl1_def)
  from none have flt: "filter (\<lambda>x. name x = mark_measure this) tl1 = []"
    by (simp add: filter_empty_conv)
  have q2: "getEntriesByName (mark_measure this) (tl1 @ [m]) = [m]"
    using flt by (simp add: getEntriesByName_def m_def)
  have clean: "clearMeasures (mark_measure this)
                 (clearMarks (mark_end this) (clearMarks (mark_start this) (tl1 @ [m])))
      = filter (\<lambda>x. \<not> is_mark (mark_start this) x \<and> \<not> is_mark (mark_end this) x) tln"
  proof -
    have nm: "\<not> is_measure (mark_measure this) x" if "x \<in> set tln" for x
      using none that by (auto simp: is_measure_def tl1_def)
    have "clearMeasures (mark_measure this)
            (clearMarks (mark_end this) (clearMarks (mark_start this) (tl1 @ [m])))
        = filter (\<lambda>x. \<not> is_mark (mark_start this) x \<and> \<not> is_mark (mark_end this) x
                       \<and> \<not> is_measure (mark_measure this) x) tln"
      by (simp add: clearMeasures_def clearMarks_def tl1_def em_def m_def is_mark_def
            is_measure_def)
    also have "\<dots> = filter (\<lambda>x. \<not> is_mark (mark_start this) x
                               \<and> \<not> is_mark (mark_end this) x) tln"
      by (rule filter_cong) (use nm in auto)
    finally show ?thesis .
  qed
  show "finish this now tln =
           Inr ([\<lparr>name = mark_measure this, entryType = MeasureEntry, startTime = startTime s,
                   duration = now - startTime s\<rparr>],
                filter (\<lambda>x. \<not> is_mark (mark_start this) x \<and> \<not> is_mark (mark_end this) x) tln)"
    using empty pm q2 clean unfolding tl1 m_def by (simp add: finish_def Let_def tl1)
qed

text \<open>
  Claim C5. A wrapper whose first query is empty should get a one-entry sequence from
  \<open>finish\<close> and leave nothing behind under its derived names. The code breaks this
  when its start mark has been cleared by another wrapper's cleanup. Two wrappers for the URL \<open>a\<close> are created at times 1 and 2 over
  a log holding one unrelated entry. The later one finishes at time 3: it returns its one
  measure and its cleanup removes both \<open>a#start\<close> marks. The earlier one finishes at time
  5: its first query is empty, and \<open>finish\<close> ends in an error instead of a one-entry
  sequence.
\<close>

theorem finish_fallback_throws_after_sibling_cleanup:
  "early_wrapper = RequestPerformance_new \<lparr>url = ''a''\<rparr> 1 [other_entry]
   \<and> late_wrapper = RequestPerformance_new \<lparr>url = ''a''\<rparr> 2 (snd early_wrapper)
   \<and> finish (fst late_wrapper) 3 (snd late_wrapper)
       = Inr ([\<lparr>name = ''a'', entryType = MeasureEntry, startTime = 2, duration = 1\<rparr>],
              [other_entry])
   \<and> getEntriesByName (mark_measure (fst early_wrapper))
        (performance_mark (mark_end (fst early_wrapper)) 5 [other_entry]) = []
   \<and> finish (fst early_wrapper) 5 [other_entry] = Inl SyntaxError"
  by (simp add: early_wrapper_def late_wrapper_def other_entry_def wrapper_defs facility_defs
        Let_def)

section \<open>Marks left behind on the observed path\<close>

text \<open>
  Claim C10. When the first query of \<open>finish\<close> is non-empty, the fallback and its cleanup
  are skipped: the call returns the entries found, and the log afterwards is the log from
  before the call with the end mark appended, so the \<open><url>#start\<close> mark recorded by the
  constructor and the \<open><url>#end\<close> mark recorded by \<open>finish\<close> both stay in the log. Here
  \<open>env\<close> stands for the entries the host added between construction and \<open>finish\<close>.
\<close>

theorem finish_observed_leaves_marks:
  assumes "RequestPerformance_new request t0 tln0 = (this, tln1)"
    and "getEntriesByName (mark_measure this)
           (performance_mark (mark_end this) now (tln1 @ env)) \<noteq> []"
  shows "finish this now (tln1 @ env) =
           Inr (getEntriesByName (mark_measure this)
                  (performance_mark (mark_end this) now (tln1 @ env)),
                tln0
                @ [\<lparr>name = url request @ ''#start'', entryType = MarkEntry,
                     startTime = t0, duration = 0\<rparr>]
                @ env
                @ [\<lparr>name = url request @ ''#end'', entryType = MarkEntry,
                     startTime = now, duration = 0\<rparr>])"
  using finish_observed [OF assms(2)] instance_names(2,7) [OF assms(1)]
  by (simp add: performance_mark_def)

theorem finish_observed_leaves_marks_witness:
  "RequestPerformance_new \<lparr>url = ''u''\<rparr> 1 [] = first_wrapper
   \<and> getEntriesByName (mark_measure (fst first_wrapper))
        (performance_mark (mark_end (fst first_wrapper)) 3
           (snd first_wrapper
            @ [\<lparr>name = ''u'', entryType = ResourceEntry, startTime = 3 / 2, duration = 1\<rparr>])) \<noteq> []
   \<and> finish (fst first_wrapper) 3
        (snd first_wrapper
         @ [\<lparr>name = ''u'', entryType = ResourceEntry, startTime = 3 / 2, duration = 1\<rparr>])
       = Inr ([\<lparr>name = ''u'', entryType = ResourceEntry, startTime = 3 / 2, duration = 1\<rparr>],
              [\<lparr>name = ''u#start'', entryType = MarkEntry, startTime = 1, duration = 0\<rparr>,
               \<lparr>name = ''u'', entryType = ResourceEntry, startTime = 3 / 2, duration = 1\<rparr>,
               \<lparr>name = ''u#end'', entryType = MarkEntry, startTime = 3, duration = 0\<rparr>])"
proof -
  have h1: "RequestPerformance_new \<lparr>url = ''u''\<rparr> 1 [] = (fst first_wrapper, snd first_wrapper)"
    by (simp add: first_wrapper_def)
  have h2: "getEntriesByName (mark_measure (fst first_wrapper))
        (performance_mark (mark_end (fst first_wrapper)) 3
           (snd first_wrapper
            @ [\<lparr>name = ''u'', entryType = ResourceEntry, startTime = 3 / 2, duration = 1\<rparr>])) \<noteq> []"
    by (simp add: first_wrapper_def wrapper_defs facility_defs Let_def)
  have q: "getEntriesByName (mark_measure (fst first_wrapper))
        (performance_mark (mark_end (fst first_wrapper)) 3
           (snd first_wrapper
            @ [\<lparr>name = ''u'', entryType = ResourceEntry, startTime = 3 / 2, duration = 1\<rparr>]))
       = [\<lparr>name = ''u'', entryType = ResourceEntry, startTime = 3 / 2, duration = 1\<rparr>]"
    by (simp add: first_wrapper_def wrapper_defs facility_defs Let_def)
  from finish_observed_leaves_marks [OF h1 h2] show ?thesis
    using h1 h2 q by simp
qed

end
